theory Spec2Isabelle
  imports Main "HOL-Library.Sublist"
begin

section \<open>The application state touched by the user module\<close>

text \<open>
  The leaves of the state tree that \<^verbatim>\<open>ModuleUser\<close> reads or writes, each named by its
  dotted path (\<^verbatim>\<open>user.platform.tokens.sip\<close> is \<open>user_platform_tokens_sip\<close>). The leaves
  of the user branch that \<^verbatim>\<open>_initialState\<close> does not list (\<^verbatim>\<open>client_id\<close>, \<^verbatim>\<open>id\<close>,
  \<^verbatim>\<open>realName\<close>) are absent (\<open>None\<close>) until a login stores them.
\<close>

record app_state =
  user_authenticated :: bool
  user_developer :: bool
  user_password :: string
  user_platform_tokens_portal :: "string option"
  user_platform_tokens_sip :: "string option"
  user_username :: "string option"
  user_client_id :: "string option"
  user_id :: "int option"
  user_realName :: "string option"
  settings_vault_active :: bool
  settings_vault_unlocked :: bool
  ui_layer :: string
  ui_menubar_default :: string
  app_installed :: bool
  app_updated :: bool

text \<open>A partial tree handed to \<^verbatim>\<open>setState\<close> is the list of the leaves it assigns.\<close>

datatype leaf =
    User_authenticated bool
  | User_password string
  | User_username string
  | User_client_id string
  | User_id int
  | User_platform_tokens_sip string
  | User_realName string
  | Settings_vault_active bool
  | Settings_vault_unlocked bool
  | Ui_layer string
  | Ui_menubar_default string
  | App_installed bool
  | App_updated bool

text \<open>The options object of \<^verbatim>\<open>setState\<close>; \<open>None\<close> is a key the caller left out.\<close>

record options =
  encrypt :: "bool option"
  persist :: "bool option"

text \<open>
  \<^verbatim>\<open>this.app.$t(text, params)\<close>: the translation layer is outside the module, so a
  translated message is kept as the text and the parameters it was asked for.
\<close>

datatype translated = Tr string "(string \<times> string) list"

text \<open>The payload of an \<^verbatim>\<open>fg:notify\<close> event; \<open>None\<close> is \<^verbatim>\<open>undefined\<close>.\<close>

record notification =
  n_icon :: string
  n_message :: "translated option"
  n_type :: string
  n_timeout :: "int option"

text \<open>The answer of the profile request: \<^verbatim>\<open>res.status\<close> and the fields of \<^verbatim>\<open>res.data\<close>
  that \<^verbatim>\<open>login\<close> consumes. \<^verbatim>\<open>res.data.error\<close> is an object with a string \<^verbatim>\<open>message\<close>.\<close>

record error_body =
  error_message :: string

record response =
  res_status :: int
  data_error :: "error_body option"
  data_first_name :: string
  data_preposition :: string
  data_last_name :: string
  data_client :: "string option"
  data_id :: int
  data_token :: string

datatype error = LockError_InvalidPassword | LockError_NoVaultConfigured | IdentityError

type_synonym key = "string \<times> string \<times> nat"

text \<open>
  What the module's collaborators hold, threaded through every operation:
  the in-memory state tree, the history of \<^verbatim>\<open>setState\<close> calls and of the flushes to
  durable storage (the partial tree with the \<^verbatim>\<open>encrypt\<close> override it was flushed
  under), the vault (\<^verbatim>\<open>state.encrypted\<close> of the store, the salt, the canary's key, the
  key held in memory), the API client's basic-auth credentials and requests, the
  notifications sent to the foreground, the arguments of \<^verbatim>\<open>calls.disconnect\<close>, the
  number of \<^verbatim>\<open>__initServices\<close> calls, the global \<^verbatim>\<open>window.failMessage\<close> and the log.
\<close>

record world =
  state :: app_state
  setState_calls :: "(leaf list \<times> options) list"
  persisted :: "(leaf list \<times> bool option) list"
  store_encrypted :: bool
  salt :: "nat option"
  vault_canary :: "key option"
  vault_key :: "key option"
  api_credentials :: "string option \<times> string option"
  api_requests :: "string list"
  notifications :: "notification list"
  calls_disconnects :: "bool list"
  services_inits :: nat
  window_failMessage :: "string option"
  logger_lines :: "string list"

text \<open>
  What a login takes from outside the module: the constant \<^verbatim>\<open>app.api.NOTOK_STATUS\<close>
  (declared outside this file), the response of the profile request, and the salt the
  crypto provider would generate on first use (\<open>None\<close>: salt creation fails).
\<close>

record env =
  NOTOK_STATUS :: "int list"
  profile_response :: response
  fresh_salt :: "nat option"

section \<open>The collaborators\<close>

text \<open>Modelled from the spec: the deep merge of \<^verbatim>\<open>app.setState\<close> (section 4.2), for one
  leaf of the partial tree: the leaf is added or overwritten, every other leaf stays.\<close>

fun merge_leaf :: "leaf \<Rightarrow> app_state \<Rightarrow> app_state" where
  "merge_leaf (User_authenticated b) s = s\<lparr>user_authenticated := b\<rparr>"
| "merge_leaf (User_password p) s = s\<lparr>user_password := p\<rparr>"
| "merge_leaf (User_username u) s = s\<lparr>user_username := Some u\<rparr>"
| "merge_leaf (User_client_id c) s = s\<lparr>user_client_id := Some c\<rparr>"
| "merge_leaf (User_id i) s = s\<lparr>user_id := Some i\<rparr>"
| "merge_leaf (User_platform_tokens_sip t) s = s\<lparr>user_platform_tokens_sip := Some t\<rparr>"
| "merge_leaf (User_realName n) s = s\<lparr>user_realName := Some n\<rparr>"
| "merge_leaf (Settings_vault_active b) s = s\<lparr>settings_vault_active := b\<rparr>"
| "merge_leaf (Settings_vault_unlocked b) s = s\<lparr>settings_vault_unlocked := b\<rparr>"
| "merge_leaf (Ui_layer l) s = s\<lparr>ui_layer := l\<rparr>"
| "merge_leaf (Ui_menubar_default d) s = s\<lparr>ui_menubar_default := d\<rparr>"
| "merge_leaf (App_installed b) s = s\<lparr>app_installed := b\<rparr>"
| "merge_leaf (App_updated b) s = s\<lparr>app_updated := b\<rparr>"

text \<open>
  Modelled from the spec: \<^verbatim>\<open>app.setState\<close> is not in this file. Section 4.2: it
  deep-merges the partial tree into the current tree; \<^verbatim>\<open>options.persist\<close> controls
  whether the update is flushed to durable storage, and \<^verbatim>\<open>options.encrypt\<close> overrides
  whether the flush uses the vault cipher (left out, the vault's own flag decides).
  A flush is recorded with the override it was given; the cipher is not modelled.
\<close>

definition setState :: "leaf list \<Rightarrow> options \<Rightarrow> world \<Rightarrow> world" where
  "setState partial opts w =
     w\<lparr>state := fold merge_leaf partial (state w),
       setState_calls := setState_calls w @ [(partial, opts)],
       persisted := (if persist opts = Some True
                     then persisted w @ [(partial, encrypt opts)]
                     else persisted w)\<rparr>"

text \<open>Modelled from the spec: \<^verbatim>\<open>app.emit('fg:notify', ...)\<close> hands the notification
  to the event bus (section 6).\<close>

definition emit_notify :: "notification \<Rightarrow> world \<Rightarrow> world" where
  "emit_notify n w = w\<lparr>notifications := notifications w @ [n]\<rparr>"

text \<open>Modelled from the spec: \<^verbatim>\<open>api.setupClient(username?, password?)\<close> sets the
  basic-auth credentials; the form without arguments clears them (section 6).\<close>

definition setupClient :: "string option \<Rightarrow> string option \<Rightarrow> world \<Rightarrow> world" where
  "setupClient u p w = w\<lparr>api_credentials := (u, p)\<rparr>"

text \<open>Modelled from the spec: \<^verbatim>\<open>api.client.get(path)\<close> sends a request; its answer
  comes from the environment.\<close>

definition client_get :: "string \<Rightarrow> world \<Rightarrow> world" where
  "client_get path w = w\<lparr>api_requests := api_requests w @ [path]\<rparr>"

text \<open>Modelled from the spec: \<^verbatim>\<open>modules.calls.disconnect(reconnect)\<close> belongs to the
  call subsystem (section 6); the call is recorded with its argument.\<close>

definition calls_disconnect :: "bool \<Rightarrow> world \<Rightarrow> world" where
  "calls_disconnect reconnect w = w\<lparr>calls_disconnects := calls_disconnects w @ [reconnect]\<rparr>"

text \<open>Modelled from the spec: \<^verbatim>\<open>app.__initServices()\<close> starts the dependent services
  (section 4.3); the call is counted.\<close>

definition initServices :: "world \<Rightarrow> world" where
  "initServices w = w\<lparr>services_inits := Suc (services_inits w)\<rparr>"

text \<open>\<^verbatim>\<open>app.logger.info(line)\<close>, which the spec leaves out: the line goes to the log.\<close>

definition logger_info :: "string \<Rightarrow> world \<Rightarrow> world" where
  "logger_info line w = w\<lparr>logger_lines := logger_lines w @ [line]\<rparr>"

text \<open>
  Modelled from the spec: the key derivation of the crypto identity provider, which is
  not in this file. Section 4.1: the key is derived deterministically from the
  credentials and the persisted salt. The derived key is represented by what it is
  derived from.
\<close>

definition derive_key :: "string \<Rightarrow> string \<Rightarrow> nat \<Rightarrow> key" where
  "derive_key u p s = (u, p, s)"

text \<open>
  Modelled from the spec: \<^verbatim>\<open>crypto.loadIdentity\<close> (section 4.1) derives the key from the
  credentials and the persisted salt, creates the salt on first use (\<^verbatim>\<open>IdentityError\<close>
  when that fails) and has no other side effect.
\<close>

definition loadIdentity :: "env \<Rightarrow> string \<Rightarrow> string \<Rightarrow> world \<Rightarrow> error + world" where
  "loadIdentity e u p w =
     (case salt w of
        Some s \<Rightarrow> Inr (w\<lparr>vault_key := Some (derive_key u p s)\<rparr>)
      | None \<Rightarrow>
          (case fresh_salt e of
             None \<Rightarrow> Inl IdentityError
           | Some s \<Rightarrow> Inr (w\<lparr>salt := Some s, vault_key := Some (derive_key u p s)\<rparr>)))"

text \<open>
  Modelled from the spec: \<^verbatim>\<open>app.__unlockVault\<close> (section 4.1) re-derives the key for the
  existing salt and checks it against the canary, failing with
  \<^verbatim>\<open>LockError.InvalidPassword\<close> on a mismatch and \<^verbatim>\<open>LockError.NoVaultConfigured\<close>
  without a vault.
\<close>

definition unlockVault :: "string \<Rightarrow> string \<Rightarrow> world \<Rightarrow> error + world" where
  "unlockVault u p w =
     (case salt w of
        None \<Rightarrow> Inl LockError_NoVaultConfigured
      | Some s \<Rightarrow>
          (case vault_canary w of
             None \<Rightarrow> Inl LockError_NoVaultConfigured
           | Some k \<Rightarrow>
               if k = derive_key u p s
               then Inr (w\<lparr>vault_key := Some k\<rparr>)
               else Inl LockError_InvalidPassword))"

section \<open>JavaScript string and array helpers\<close>

text \<open>\<^verbatim>\<open>String.prototype.includes\<close>: the needle occurs at some position.\<close>

fun includes_str :: "string \<Rightarrow> string \<Rightarrow> bool" where
  "includes_str [] needle = (needle = [])"
| "includes_str (c # cs) needle = (prefix needle (c # cs) \<or> includes_str cs needle)"

text \<open>\<^verbatim>\<open>String.prototype.substring(start, end)\<close>: both indices are clamped to
  \<open>0..length\<close>, and swapped when the first is the larger.\<close>

definition substring :: "string \<Rightarrow> int \<Rightarrow> int \<Rightarrow> string" where
  "substring s indexStart indexEnd =
     (let len = int (length s);
          a = min (max indexStart 0) len;
          b = min (max indexEnd 0) len;
          lo = min a b;
          hi = max a b
      in take (nat (hi - lo)) (drop (nat lo) s))"

text \<open>\<^verbatim>\<open>Array.prototype.join(sep)\<close>.\<close>

fun join :: "string \<Rightarrow> string list \<Rightarrow> string" where
  "join sep [] = []"
| "join sep [x] = x"
| "join sep (x # y # ys) = x @ sep @ join sep (y # ys)"

text \<open>The character class \<^verbatim>\<open>\d\<close>.\<close>

definition digit :: "char \<Rightarrow> bool" where
  "digit c = (c \<in> set ''0123456789'')"

section \<open>ModuleUser\<close>

text \<open>\<^verbatim>\<open>logout\<close> (lines 157-175). The log line is recorded without the prefix that
  the application's own \<^verbatim>\<open>toString\<close> puts before \<^verbatim>\<open>[user]\<close>.\<close>

definition logout :: "world \<Rightarrow> world" where
  "logout w0 =
     (let w1 = logger_info ''[user] logging out and cleaning up state'' w0;
          w2 = setState [User_password '''']
                 (if user_authenticated (state w1)
                  then \<lparr>encrypt = None, persist = Some True\<rparr>
                  else \<lparr>encrypt = None, persist = None\<rparr>) w1;
          w3 = setState
                 [Settings_vault_active False, Settings_vault_unlocked False,
                  Ui_layer ''login'', User_authenticated False]
                 \<lparr>encrypt = Some False, persist = Some True\<rparr> w2;
          w4 = setupClient None None w3;
          w5 = calls_disconnect False w4;
          w6 = emit_notify
                 \<lparr>n_icon = ''user'', n_message = Some (Tr ''Goodbye!'' []),
                  n_type = ''success'', n_timeout = None\<rparr> w5
      in setState [Ui_menubar_default ''inactive''] \<lparr>encrypt = None, persist = None\<rparr> w6)"

text \<open>The failure branch of \<^verbatim>\<open>login\<close> (lines 81-101).\<close>

definition login_failure :: "response \<Rightarrow> world \<Rightarrow> world" where
  "login_failure res w0 =
     (let icon = ''warning''; type = ''warning'';
          (message, w1) =
            (case data_error res of
               Some err \<Rightarrow>
                 (let failMessage = error_message err in
                  if includes_str failMessage ''Too many failed login attempts''
                  then
                    (let date = substring failMessage
                                  (int (length failMessage) - 9) (int (length failMessage) - 1)
                     in (Some (Tr ''Too many failed login attempts; try again at {date}''
                                  [(''date'', date)]),
                         w0\<lparr>window_failMessage := Some failMessage\<rparr>))
                  else (None, w0))
             | None \<Rightarrow>
                 (Some (Tr ''Failed to login. Please check your credentials.'' []), w0));
          w2 = emit_notify
                 \<lparr>n_icon = icon, n_message = message, n_type = type, n_timeout = None\<rparr> w1
      in setState [User_password ''''] \<lparr>encrypt = None, persist = None\<rparr> w2)"

text \<open>The entitled branch of \<^verbatim>\<open>login\<close> (lines 111-147); \<open>client\<close> is the truthy
  \<^verbatim>\<open>user.client\<close>. A rejected vault operation rejects the login where it stands.\<close>

definition login_entitled ::
  "env \<Rightarrow> string \<Rightarrow> string \<Rightarrow> response \<Rightarrow> string \<Rightarrow> string \<Rightarrow> world \<Rightarrow> error option \<times> world" where
  "login_entitled e username password user client realName w0 =
     (case (if store_encrypted w0
            then unlockVault username password w0
            else loadIdentity e username password w0) of
        Inl err \<Rightarrow> (Some err, w0)
      | Inr w1 \<Rightarrow>
          (let w2 = setState [User_authenticated True, User_username username]
                      \<lparr>encrypt = Some False, persist = Some True\<rparr> w1;
               installed = app_installed (state w2);
               startLayer = (if installed then ''settings'' else ''contacts'');
               w3 = (if installed
                     then emit_notify
                            \<lparr>n_icon = ''settings'',
                             n_message = Some (Tr ''Review your softphone and audio settings.'' []),
                             n_type = ''warning'', n_timeout = Some 0\<rparr> w2
                     else emit_notify
                            \<lparr>n_icon = ''user'',
                             n_message = Some (Tr ''Welcome back, {user}'' [(''user'', realName)]),
                             n_type = ''success'', n_timeout = None\<rparr> w2);
               w4 = setState
                      [App_installed False, App_updated False,
                       Ui_layer startLayer, Ui_menubar_default ''active'']
                      \<lparr>encrypt = Some False, persist = Some True\<rparr> w3;
               w5 = setState
                      [User_client_id (filter (\<lambda>c. digit c \<or> c = CHR ''.'') client),
                       User_id (data_id user),
                       User_password password,
                       User_platform_tokens_sip (data_token user),
                       User_realName realName]
                      \<lparr>encrypt = None, persist = Some True\<rparr> w4
           in (None, initServices w5)))"

text \<open>\<^verbatim>\<open>login\<close> (lines 76-148). The result is the error the returned promise is
  rejected with (\<open>None\<close>: it resolves) and the world it leaves. Nothing else runs
  between its awaits.\<close>

definition login :: "env \<Rightarrow> string \<Rightarrow> string \<Rightarrow> world \<Rightarrow> error option \<times> world" where
  "login e username password w0 =
     (let w1 = setupClient (Some username) (Some password) w0;
          w2 = client_get ''api/permission/systemuser/profile/'' w1;
          res = profile_response e
      in if res_status res \<in> set (NOTOK_STATUS e)
         then (None, login_failure res w2)
         else
           (let user = res;
                realName = join '' ''
                  (filter (\<lambda>i. i \<noteq> '''')
                     [data_first_name user, data_preposition user, data_last_name user])
            in case data_client user of
                 None \<Rightarrow> (None, logout w2)
               | Some client \<Rightarrow>
                   if client = '''' then (None, logout w2)
                   else login_entitled e username password user client realName w2))"

section \<open>CallSwitch\<close>

text \<open>A call as \<^verbatim>\<open>newCallAllowed\<close> reads it, and the \<^verbatim>\<open>calls\<close> object as its entries:
  \<^verbatim>\<open>Object.keys\<close> lists the keys, \<^verbatim>\<open>this.calls[callId]\<close> looks one up.\<close>

record call =
  call_status :: string
  call_active :: bool

type_synonym calls = "(string \<times> call) list"

definition Object_keys :: "calls \<Rightarrow> string list" where
  "Object_keys cs = map fst cs"

text \<open>The loop of \<^verbatim>\<open>newCallAllowed\<close> (lines 258-262). Reading \<^verbatim>\<open>status\<close> of a missing
  entry would throw: \<open>None\<close>.\<close>

fun newCallAllowed_loop :: "calls \<Rightarrow> string list \<Rightarrow> bool \<Rightarrow> bool option" where
  "newCallAllowed_loop cs [] available = Some available"
| "newCallAllowed_loop cs (callId # rest) available =
     (case map_of cs callId of
        None \<Rightarrow> None
      | Some c \<Rightarrow>
          newCallAllowed_loop cs rest
            (if call_status c \<in> set [''new'', ''create'', ''invite'']
             then False else available))"

definition newCallAllowed :: "calls \<Rightarrow> bool option" where
  "newCallAllowed cs = newCallAllowed_loop cs (Object_keys cs) True"

section \<open>Path conditions\<close>

text \<open>The condition under which \<^verbatim>\<open>login\<close> takes its rate-limit branch (lines 81, 84
  and 88): a not-OK status, an error body, and the marker in its message.\<close>

definition rate_limited :: "env \<Rightarrow> bool" where
  "rate_limited e =
     (res_status (profile_response e) \<in> set (NOTOK_STATUS e) \<and>
      (case data_error (profile_response e) of
         None \<Rightarrow> False
       | Some err \<Rightarrow> includes_str (error_message err) ''Too many failed login attempts''))"

text \<open>Whether a leaf lies in the \<^verbatim>\<open>user\<close> branch of the state tree.\<close>

fun user_leaf :: "leaf \<Rightarrow> bool" where
  "user_leaf (User_authenticated b) = True"
| "user_leaf (User_password p) = True"
| "user_leaf (User_username u) = True"
| "user_leaf (User_client_id c) = True"
| "user_leaf (User_id i) = True"
| "user_leaf (User_platform_tokens_sip t) = True"
| "user_leaf (User_realName n) = True"
| "user_leaf (Settings_vault_active b) = False"
| "user_leaf (Settings_vault_unlocked b) = False"
| "user_leaf (Ui_layer l) = False"
| "user_leaf (Ui_menubar_default d) = False"
| "user_leaf (App_installed b) = False"
| "user_leaf (App_updated b) = False"

section \<open>Concrete sessions\<close>

text \<open>The state tree of a fresh install; the user branch holds what \<^verbatim>\<open>_initialState\<close>
  (lines 42-55) returns.\<close>

definition state0 :: app_state where
  "state0 =
     \<lparr>user_authenticated = False,
      user_developer = False,
      user_password = '''',
      user_platform_tokens_portal = None,
      user_platform_tokens_sip = None,
      user_username = None,
      user_client_id = None,
      user_id = None,
      user_realName = None,
      settings_vault_active = False,
      settings_vault_unlocked = False,
      ui_layer = ''login'',
      ui_menubar_default = ''inactive'',
      app_installed = True,
      app_updated = False\<rparr>"

text \<open>A world in which nothing has happened yet and no vault exists.\<close>

definition world0 :: world where
  "world0 =
     \<lparr>state = state0,
      setState_calls = [],
      persisted = [],
      store_encrypted = False,
      salt = None,
      vault_canary = None,
      vault_key = None,
      api_credentials = (None, None),
      api_requests = [],
      notifications = [],
      calls_disconnects = [],
      services_inits = 0,
      window_failMessage = None,
      logger_lines = []\<rparr>"

text \<open>An authenticated session of \<^verbatim>\<open>ada\<close> over an encrypted, unlocked vault.\<close>

definition world_vault :: world where
  "world_vault =
     world0
       \<lparr>state := state0
          \<lparr>user_authenticated := True,
           user_password := ''pw'',
           user_username := Some ''ada'',
           settings_vault_active := True,
           settings_vault_unlocked := True,
           app_installed := False\<rparr>,
        store_encrypted := True,
        salt := Some 5,
        vault_canary := Some (derive_key ''ada'' ''pw'' 5),
        vault_key := Some (derive_key ''ada'' ''pw'' 5)\<rparr>"

text \<open>The profile of an entitled user, and an environment answering with a given
  response.\<close>

definition profile_ok :: response where
  "profile_ok =
     \<lparr>res_status = 200,
      data_error = None,
      data_first_name = ''Ada'',
      data_preposition = '''',
      data_last_name = ''Lovelace'',
      data_client = Some ''/api/apprelation/client/42/'',
      data_id = 7,
      data_token = ''sip-token''\<rparr>"

definition env_of :: "response \<Rightarrow> env" where
  "env_of res = \<lparr>NOTOK_STATUS = [400, 401, 403, 404], profile_response = res, fresh_salt = Some 1\<rparr>"

section \<open>Call-set exclusivity\<close>

text \<open>The loop reads every key it is given from the object itself, so it never throws,
  and it finishes with the flag still set exactly when no visited call blocks a new one.\<close>

lemma newCallAllowed_loop_total:
  "set ks \<subseteq> fst ` set cs \<Longrightarrow>
   newCallAllowed_loop cs ks available =
     Some (available \<and>
           list_all (\<lambda>k. case map_of cs k of
                            None \<Rightarrow> True
                          | Some c \<Rightarrow> call_status c \<notin> {''new'', ''create'', ''invite''}) ks)"
proof (induction ks arbitrary: available)
  case Nil
  then show ?case by simp
next
  case (Cons k ks)
  from Cons.prems have "k \<in> fst ` set cs" by simp
  then obtain c where c: "map_of cs k = Some c"
    by (metis domD dom_map_of_conv_image_fst)
  from Cons.prems have "set ks \<subseteq> fst ` set cs" by simp
  from Cons.IH [OF this] c show ?case
    by auto
qed

text \<open>
  C9. For every set of calls, \<^verbatim>\<open>newCallAllowed()\<close> returns a value, and that value is
  false when at least one call of the set has a status among \<^verbatim>\<open>new\<close>, \<^verbatim>\<open>create\<close> and
  \<^verbatim>\<open>invite\<close>, and true when none has, whatever the number of calls with any other
  status.
\<close>

theorem newCallAllowed_exclusive:
  "newCallAllowed cs =
     Some (\<forall>c \<in> ran (map_of cs). call_status c \<notin> {''new'', ''create'', ''invite''})"
proof -
  have "newCallAllowed cs =
     Some (list_all (\<lambda>k. case map_of cs k of
                            None \<Rightarrow> True
                          | Some c \<Rightarrow> call_status c \<notin> {''new'', ''create'', ''invite''}) (map fst cs))"
    unfolding newCallAllowed_def Object_keys_def
    by (simp add: newCallAllowed_loop_total)
  moreover have "list_all (\<lambda>k. case map_of cs k of
                            None \<Rightarrow> True
                          | Some c \<Rightarrow> call_status c \<notin> {''new'', ''create'', ''invite''}) (map fst cs)
     \<longleftrightarrow> (\<forall>c \<in> ran (map_of cs). call_status c \<notin> {''new'', ''create'', ''invite''})"
  proof
    assume L: "list_all (\<lambda>k. case map_of cs k of
                            None \<Rightarrow> True
                          | Some c \<Rightarrow> call_status c \<notin> {''new'', ''create'', ''invite''}) (map fst cs)"
    show "\<forall>c \<in> ran (map_of cs). call_status c \<notin> {''new'', ''create'', ''invite''}"
    proof
      fix c assume "c \<in> ran (map_of cs)"
      then obtain k where k: "map_of cs k = Some c" by (auto simp: ran_def)
      then have "k \<in> set (map fst cs)" by (metis domI dom_map_of_conv_image_fst set_map)
      with L k show "call_status c \<notin> {''new'', ''create'', ''invite''}"
        by (auto simp: list_all_iff)
    qed
  next
    assume R: "\<forall>c \<in> ran (map_of cs). call_status c \<notin> {''new'', ''create'', ''invite''}"
    show "list_all (\<lambda>k. case map_of cs k of
                            None \<Rightarrow> True
                          | Some c \<Rightarrow> call_status c \<notin> {''new'', ''create'', ''invite''}) (map fst cs)"
      unfolding list_all_iff
    proof
      fix k assume "k \<in> set (map fst cs)"
      show "case map_of cs k of None \<Rightarrow> True
             | Some c \<Rightarrow> call_status c \<notin> {''new'', ''create'', ''invite''}"
      proof (cases "map_of cs k")
        case None then show ?thesis by simp
      next
        case (Some c)
        then have "c \<in> ran (map_of cs)" by (auto simp: ran_def)
        with R Some show ?thesis by simp
      qed
    qed
  qed
  ultimately show ?thesis by simp
qed

theorem newCallAllowed_exclusive_witness:
  "newCallAllowed
     [(''1'', \<lparr>call_status = ''accepted'', call_active = True\<rparr>),
      (''2'', \<lparr>call_status = ''accepted'', call_active = False\<rparr>),
      (''3'', \<lparr>call_status = ''bye'', call_active = False\<rparr>)] = Some True
   \<and> newCallAllowed
     [(''1'', \<lparr>call_status = ''accepted'', call_active = True\<rparr>),
      (''2'', \<lparr>call_status = ''invite'', call_active = False\<rparr>)] = Some False"
proof -
  let ?free = "[(''1'', \<lparr>call_status = ''accepted'', call_active = True\<rparr>),
                (''2'', \<lparr>call_status = ''accepted'', call_active = False\<rparr>),
                (''3'', \<lparr>call_status = ''bye'', call_active = False\<rparr>)]"
  let ?busy = "[(''1'', \<lparr>call_status = ''accepted'', call_active = True\<rparr>),
                (''2'', \<lparr>call_status = ''invite'', call_active = False\<rparr>)]"
  have "ran (map_of ?free) = snd ` set ?free"
    by (rule ran_distinct) simp
  then have free: "newCallAllowed ?free = Some True"
    using newCallAllowed_exclusive [of ?free] by simp
  have "ran (map_of ?busy) = snd ` set ?busy"
    by (rule ran_distinct) simp
  then have busy: "newCallAllowed ?busy = Some False"
    using newCallAllowed_exclusive [of ?busy] by simp
  from free busy show ?thesis by simp
qed

section \<open>Facts about the helpers and the branches of login\<close>

lemmas collaborator_defs =
  setState_def emit_notify_def setupClient_def client_get_def calls_disconnect_def
  initServices_def logger_info_def

lemma includes_str_sublist: "includes_str s needle \<longleftrightarrow> sublist needle s"
proof (induction s)
  case Nil
  then show ?case by auto
next
  case (Cons c cs)
  then show ?case by (cases needle) (simp_all add: sublist_Cons_right)
qed

lemma includes_str_length: "includes_str s needle \<Longrightarrow> length needle \<le> length s"
  by (induction s) (auto dest: prefix_length_le)

lemma substring_window:
  assumes "9 \<le> length s"
  shows "substring s (int (length s) - 9) (int (length s) - 1) = take 8 (drop (length s - 9) s)"
  using assms by (simp add: substring_def Let_def min_def max_def nat_diff_distrib)

lemma login_notok:
  "res_status (profile_response e) \<in> set (NOTOK_STATUS e) \<Longrightarrow>
   login e username password w =
     (None, login_failure (profile_response e)
              (client_get ''api/permission/systemuser/profile/''
                 (setupClient (Some username) (Some password) w)))"
  by (simp add: login_def Let_def)

lemma login_not_entitled:
  "res_status (profile_response e) \<notin> set (NOTOK_STATUS e) \<Longrightarrow>
   data_client (profile_response e) = None \<or> data_client (profile_response e) = Some '''' \<Longrightarrow>
   login e username password w =
     (None, logout (client_get ''api/permission/systemuser/profile/''
                      (setupClient (Some username) (Some password) w)))"
  by (auto simp: login_def Let_def)

lemma login_ok:
  "res_status (profile_response e) \<notin> set (NOTOK_STATUS e) \<Longrightarrow>
   data_client (profile_response e) = Some client \<Longrightarrow> client \<noteq> '''' \<Longrightarrow>
   login e username password w =
     login_entitled e username password (profile_response e) client
       (join '' '' (filter (\<lambda>i. i \<noteq> '''')
          [data_first_name (profile_response e), data_preposition (profile_response e),
           data_last_name (profile_response e)]))
       (client_get ''api/permission/systemuser/profile/''
          (setupClient (Some username) (Some password) w))"
  by (simp add: login_def Let_def)

lemma vault_operation_frame:
  assumes "(if store_encrypted w then unlockVault username password w
            else loadIdentity e username password w) = Inr w'"
  shows "w' = w\<lparr>salt := salt w', vault_key := vault_key w'\<rparr>"
  using assms
  by (auto simp: unlockVault_def loadIdentity_def split: if_splits option.splits)

section \<open>Logout\<close>

text \<open>
  C1. Every execution of \<^verbatim>\<open>logout()\<close> leaves the persisted salt as it was: logout
  neither deletes nor regenerates it. A login that follows, with whatever credentials
  and whatever answer of the profile request, finds the salt that existed before the
  logout and leaves it in place, so the vault key can be derived again from the same
  salt. (Where no salt exists yet there is nothing to keep: the crypto provider creates
  one on first use.)
\<close>

theorem logout_preserves_salt:
  "salt (logout w) = salt w \<and>
   (\<forall>s. salt w = Some s \<longrightarrow> salt (snd (login e username password (logout w))) = Some s)"
proof -
  have out: "salt (logout w) = salt w" for w
    by (simp add: logout_def Let_def collaborator_defs)
  have "salt (snd (login e username password v)) = Some s" if "salt v = Some s" for v s
    using that
    by (simp add: login_def login_failure_def login_entitled_def out Let_def collaborator_defs
        unlockVault_def loadIdentity_def
        split: option.splits sum.splits if_splits prod.splits)
  with out show ?thesis by simp
qed

theorem logout_preserves_salt_witness:
  "salt world_vault = Some 5 \<and>
   salt (logout world_vault) = Some 5 \<and>
   salt (snd (login (env_of profile_ok) ''ada'' ''pw'' (logout world_vault))) = Some 5 \<and>
   vault_key (snd (login (env_of profile_ok) ''ada'' ''pw'' (logout world_vault))) =
     vault_key world_vault"
proof -
  have before: "salt world_vault = Some 5"
    by (simp add: world_vault_def)
  have key: "vault_key (snd (login (env_of profile_ok) ''ada'' ''pw'' (logout world_vault))) =
               vault_key world_vault"
    by (simp add: login_def login_entitled_def unlockVault_def logout_def env_of_def
        profile_ok_def world_vault_def world0_def Let_def collaborator_defs)
  from logout_preserves_salt [of world_vault "env_of profile_ok" "''ada''" "''pw''"] before key
  show ?thesis by simp
qed

text \<open>
  C2, as the source has it. The update that clears the authentication flag (together
  with the vault flags and the login layer) is always flushed, with encryption switched
  off, also when the session was not authenticated. What depends on the session having
  been authenticated is the flush of the other update, the one that clears the
  password: it is flushed, under the store's own encryption policy, exactly when the
  session was authenticated.
\<close>

theorem logout_persistence:
  "persisted (logout w) =
     persisted w
     @ (if user_authenticated (state w) then [([User_password ''''], None)] else [])
     @ [([Settings_vault_active False, Settings_vault_unlocked False,
          Ui_layer ''login'', User_authenticated False], Some False)]"
  by (simp add: logout_def Let_def collaborator_defs)

theorem logout_persistence_witness:
  "user_authenticated (state world_vault) \<and>
   persisted (logout world_vault) =
     [([User_password ''''], None),
      ([Settings_vault_active False, Settings_vault_unlocked False,
        Ui_layer ''login'', User_authenticated False], Some False)]"
proof -
  have start: "user_authenticated (state world_vault)" "persisted world_vault = []"
    by (simp_all add: world_vault_def world0_def)
  from logout_persistence [of world_vault] start show ?thesis by simp
qed

text \<open>C2 as stated fails: a logout of a session that is not authenticated still
  flushes the update that clears the authentication flag.\<close>

theorem logout_persists_flag_clear_unauthenticated:
  "\<not> user_authenticated (state world0) \<and>
   persisted (logout world0) =
     [([Settings_vault_active False, Settings_vault_unlocked False,
        Ui_layer ''login'', User_authenticated False], Some False)]"
  by (simp add: logout_def Let_def collaborator_defs world0_def state0_def)

section \<open>Failed login\<close>

text \<open>
  C3. When the profile request answers with a not-OK status, \<^verbatim>\<open>login\<close> returns
  normally and leaves the authentication flag as it found it (so a flag that was false
  is still false), the in-memory password is the empty string, and nothing of the vault
  has changed: the salt, the key, the canary, the store's encrypted flag and the vault
  settings are the same, and nothing was flushed to durable storage.
\<close>

theorem login_failure_frame:
  assumes "res_status (profile_response e) \<in> set (NOTOK_STATUS e)"
  shows "fst (login e username password w) = None \<and>
         user_authenticated (state (snd (login e username password w))) = user_authenticated (state w) \<and>
         user_password (state (snd (login e username password w))) = '''' \<and>
         salt (snd (login e username password w)) = salt w \<and>
         vault_key (snd (login e username password w)) = vault_key w \<and>
         vault_canary (snd (login e username password w)) = vault_canary w \<and>
         store_encrypted (snd (login e username password w)) = store_encrypted w \<and>
         settings_vault_active (state (snd (login e username password w))) = settings_vault_active (state w) \<and>
         settings_vault_unlocked (state (snd (login e username password w))) = settings_vault_unlocked (state w) \<and>
         persisted (snd (login e username password w)) = persisted w"
  by (simp add: login_notok [OF assms] login_failure_def Let_def collaborator_defs
      split: option.splits prod.splits)

theorem login_failure_frame_witness:
  "401 \<in> set (NOTOK_STATUS (env_of (profile_ok\<lparr>res_status := 401\<rparr>))) \<and>
   user_password (state (world0\<lparr>state := state0\<lparr>user_password := ''old''\<rparr>\<rparr>)) = ''old'' \<and>
   \<not> user_authenticated
       (state (snd (login (env_of (profile_ok\<lparr>res_status := 401\<rparr>)) ''ada'' ''wrong''
                      (world0\<lparr>state := state0\<lparr>user_password := ''old''\<rparr>\<rparr>)))) \<and>
   user_password
       (state (snd (login (env_of (profile_ok\<lparr>res_status := 401\<rparr>)) ''ada'' ''wrong''
                      (world0\<lparr>state := state0\<lparr>user_password := ''old''\<rparr>\<rparr>)))) = '''' \<and>
   persisted (snd (login (env_of (profile_ok\<lparr>res_status := 401\<rparr>)) ''ada'' ''wrong''
                      (world0\<lparr>state := state0\<lparr>user_password := ''old''\<rparr>\<rparr>))) = []"
proof -
  have notok: "res_status (profile_response (env_of (profile_ok\<lparr>res_status := 401\<rparr>)))
                 \<in> set (NOTOK_STATUS (env_of (profile_ok\<lparr>res_status := 401\<rparr>)))"
    by (simp add: env_of_def)
  show ?thesis
    using login_failure_frame [OF notok, of "''ada''" "''wrong''"
            "world0\<lparr>state := state0\<lparr>user_password := ''old''\<rparr>\<rparr>"]
    by (simp add: env_of_def world0_def state0_def)
qed

section \<open>Entitled login\<close>

text \<open>A login that gets through its vault operation has flushed three updates, and the
  vault operation itself touched nothing but the salt and the key.\<close>

lemma login_entitled_resolved:
  assumes "login_entitled e username password user client realName w0 = (None, w')"
  obtains w1 where
    "(if store_encrypted w0 then unlockVault username password w0
      else loadIdentity e username password w0) = Inr w1"
    and "w1 = w0\<lparr>salt := salt w1, vault_key := vault_key w1\<rparr>"
proof -
  let ?op = "if store_encrypted w0 then unlockVault username password w0
             else loadIdentity e username password w0"
  from assms obtain w1 where op: "?op = Inr w1"
    by (cases ?op) (simp_all add: login_entitled_def)
  from op vault_operation_frame [OF op] that show thesis by blast
qed

lemma login_entitled_persisted:
  assumes "login_entitled e username password user client realName w0 = (None, w')"
  shows "persisted w' =
           persisted w0 @
           [([User_authenticated True, User_username username], Some False),
            ([App_installed False, App_updated False,
              Ui_layer (if app_installed (state w0) then ''settings'' else ''contacts''),
              Ui_menubar_default ''active''], Some False),
            ([User_client_id (filter (\<lambda>c. digit c \<or> c = CHR ''.'') client),
              User_id (data_id user),
              User_password password,
              User_platform_tokens_sip (data_token user),
              User_realName realName], None)]"
proof -
  from assms obtain w1 where
    op: "(if store_encrypted w0 then unlockVault username password w0
          else loadIdentity e username password w0) = Inr w1"
    and frame: "w1 = w0\<lparr>salt := salt w1, vault_key := vault_key w1\<rparr>"
    by (rule login_entitled_resolved)
  have p1: "persisted w1 = persisted w0" and i1: "app_installed (state w1) = app_installed (state w0)"
    by (subst frame, simp)+
  have "persisted w' =
          persisted (snd (login_entitled e username password user client realName w0))"
    using assms by simp
  also have "\<dots> = persisted w1 @
           [([User_authenticated True, User_username username], Some False),
            ([App_installed False, App_updated False,
              Ui_layer (if app_installed (state w1) then ''settings'' else ''contacts''),
              Ui_menubar_default ''active''], Some False),
            ([User_client_id (filter (\<lambda>c. digit c \<or> c = CHR ''.'') client),
              User_id (data_id user),
              User_password password,
              User_platform_tokens_sip (data_token user),
              User_realName realName], None)]"
    unfolding login_entitled_def op by (simp add: Let_def collaborator_defs)
  finally show ?thesis by (simp add: p1 i1)
qed

lemma login_entitled_client_id:
  assumes "login_entitled e username password user client realName w0 = (None, w')"
  shows "user_client_id (state w') = Some (filter (\<lambda>c. digit c \<or> c = CHR ''.'') client)"
proof -
  from assms obtain w1 where
    op: "(if store_encrypted w0 then unlockVault username password w0
          else loadIdentity e username password w0) = Inr w1"
    by (rule login_entitled_resolved)
  have "user_client_id (state w') =
          user_client_id (state (snd (login_entitled e username password user client realName w0)))"
    using assms by simp
  also have "\<dots> = Some (filter (\<lambda>c. digit c \<or> c = CHR ''.'') client)"
    unfolding login_entitled_def op by (simp add: Let_def collaborator_defs)
  finally show ?thesis .
qed

text \<open>
  C4. A successful entitled login flushes under exactly two regimes. The first update,
  which sets only \<^verbatim>\<open>authenticated\<close> and \<^verbatim>\<open>username\<close>, is flushed with encryption
  explicitly switched off. The update that stores the client id, the user id, the SIP
  token, the real name and the plaintext password, which is the second update of the
  user branch, is flushed with no \<^verbatim>\<open>encrypt\<close> override, that is under the store's
  own policy. Between the two the login flushes the update of the \<^verbatim>\<open>app\<close> and \<^verbatim>\<open>ui\<close>
  branches, again with encryption switched off, so no third regime occurs.
\<close>

theorem login_persistence_regimes:
  assumes "res_status (profile_response e) \<notin> set (NOTOK_STATUS e)"
    and "data_client (profile_response e) = Some client"
    and "client \<noteq> ''''"
    and "login e username password w = (None, w')"
  shows "persisted w' =
           persisted w @
           [([User_authenticated True, User_username username], Some False),
            ([App_installed False, App_updated False,
              Ui_layer (if app_installed (state w) then ''settings'' else ''contacts''),
              Ui_menubar_default ''active''], Some False),
            ([User_client_id (filter (\<lambda>c. digit c \<or> c = CHR ''.'') client),
              User_id (data_id (profile_response e)),
              User_password password,
              User_platform_tokens_sip (data_token (profile_response e)),
              User_realName
                (join '' '' (filter (\<lambda>i. i \<noteq> '''')
                   [data_first_name (profile_response e), data_preposition (profile_response e),
                    data_last_name (profile_response e)]))], None)]
         \<and> set (map snd (drop (length (persisted w)) (persisted w'))) = {Some False, None}
         \<and> map snd (filter (\<lambda>(partial, enc). list_ex user_leaf partial)
                       (drop (length (persisted w)) (persisted w'))) = [Some False, None]"
proof -
  let ?w2 = "client_get ''api/permission/systemuser/profile/''
               (setupClient (Some username) (Some password) w)"
  let ?realName = "join '' '' (filter (\<lambda>i. i \<noteq> '''')
          [data_first_name (profile_response e), data_preposition (profile_response e),
           data_last_name (profile_response e)])"
  from assms(4) have ent: "login_entitled e username password (profile_response e) client
       ?realName ?w2 = (None, w')"
    by (simp only: login_ok [OF assms(1-3)])
  have w2: "persisted ?w2 = persisted w" "app_installed (state ?w2) = app_installed (state w)"
    by (simp_all add: collaborator_defs)
  note eq = login_entitled_persisted [OF ent, unfolded w2]
  show ?thesis
    unfolding eq by auto
qed

theorem login_persistence_regimes_witness:
  "login (env_of profile_ok) ''ada'' ''pw'' world0 =
     (None, snd (login (env_of profile_ok) ''ada'' ''pw'' world0)) \<and>
   persisted (snd (login (env_of profile_ok) ''ada'' ''pw'' world0)) =
     [([User_authenticated True, User_username ''ada''], Some False),
      ([App_installed False, App_updated False, Ui_layer ''settings'',
        Ui_menubar_default ''active''], Some False),
      ([User_client_id ''42'', User_id 7, User_password ''pw'',
        User_platform_tokens_sip ''sip-token'', User_realName ''Ada Lovelace''], None)]"
proof -
  have ok: "res_status (profile_response (env_of profile_ok)) \<notin> set (NOTOK_STATUS (env_of profile_ok))"
    by (simp add: env_of_def profile_ok_def)
  have client: "data_client (profile_response (env_of profile_ok)) = Some ''/api/apprelation/client/42/''"
    by (simp add: env_of_def profile_ok_def)
  have nonempty: "''/api/apprelation/client/42/'' \<noteq> ''''" by simp
  have "fst (login (env_of profile_ok) ''ada'' ''pw'' world0) = None"
    by (simp add: login_def login_entitled_def loadIdentity_def env_of_def profile_ok_def
        world0_def collaborator_defs Let_def)
  then have resolved: "login (env_of profile_ok) ''ada'' ''pw'' world0 =
     (None, snd (login (env_of profile_ok) ''ada'' ''pw'' world0))"
    by (simp add: prod_eq_iff)
  from login_persistence_regimes [OF ok client nonempty resolved] resolved
  show ?thesis
    by (simp add: env_of_def profile_ok_def world0_def state0_def digit_def)
qed

section \<open>Login without entitlement\<close>

text \<open>
  C5. When the profile request answers with a status that is not among the not-OK ones
  and the profile's \<^verbatim>\<open>client\<close> is falsy (absent or the empty string), \<^verbatim>\<open>login\<close> is
  the whole \<^verbatim>\<open>logout()\<close> transition, run after the API credentials were set and the
  request sent: the farewell notification, the three state updates of logout, the
  cleared credentials and the disconnect. No vault key is derived (key and salt are
  as before), and no update sets \<^verbatim>\<open>authenticated\<close> to true: the flag ends false.
\<close>

theorem login_not_entitled_is_logout:
  assumes "res_status (profile_response e) \<notin> set (NOTOK_STATUS e)"
    and "data_client (profile_response e) = None \<or> data_client (profile_response e) = Some ''''"
  shows "login e username password w =
           (None, logout (client_get ''api/permission/systemuser/profile/''
                            (setupClient (Some username) (Some password) w)))
         \<and> vault_key (snd (login e username password w)) = vault_key w
         \<and> salt (snd (login e username password w)) = salt w
         \<and> \<not> user_authenticated (state (snd (login e username password w)))
         \<and> user_password (state (snd (login e username password w))) = ''''
         \<and> setState_calls (snd (login e username password w)) =
             setState_calls w @
             [([User_password ''''],
               if user_authenticated (state w)
               then \<lparr>encrypt = None, persist = Some True\<rparr>
               else \<lparr>encrypt = None, persist = None\<rparr>),
              ([Settings_vault_active False, Settings_vault_unlocked False,
                Ui_layer ''login'', User_authenticated False],
               \<lparr>encrypt = Some False, persist = Some True\<rparr>),
              ([Ui_menubar_default ''inactive''], \<lparr>encrypt = None, persist = None\<rparr>)]
         \<and> notifications (snd (login e username password w)) =
             notifications w @
             [\<lparr>n_icon = ''user'', n_message = Some (Tr ''Goodbye!'' []),
               n_type = ''success'', n_timeout = None\<rparr>]
         \<and> calls_disconnects (snd (login e username password w)) = calls_disconnects w @ [False]
         \<and> api_credentials (snd (login e username password w)) = (None, None)"
  by (simp add: login_not_entitled [OF assms] logout_def Let_def collaborator_defs)

theorem login_not_entitled_is_logout_witness:
  "login (env_of (profile_ok\<lparr>data_client := None\<rparr>)) ''ada'' ''pw'' world0 =
     (None, logout (client_get ''api/permission/systemuser/profile/''
                      (setupClient (Some ''ada'') (Some ''pw'') world0)))
   \<and> vault_key (snd (login (env_of (profile_ok\<lparr>data_client := None\<rparr>)) ''ada'' ''pw'' world0)) = None
   \<and> \<not> user_authenticated
         (state (snd (login (env_of (profile_ok\<lparr>data_client := None\<rparr>)) ''ada'' ''pw'' world0)))
   \<and> notifications (snd (login (env_of (profile_ok\<lparr>data_client := None\<rparr>)) ''ada'' ''pw'' world0)) =
       [\<lparr>n_icon = ''user'', n_message = Some (Tr ''Goodbye!'' []),
         n_type = ''success'', n_timeout = None\<rparr>]"
proof -
  have ok: "res_status (profile_response (env_of (profile_ok\<lparr>data_client := None\<rparr>)))
              \<notin> set (NOTOK_STATUS (env_of (profile_ok\<lparr>data_client := None\<rparr>)))"
    by (simp add: env_of_def profile_ok_def)
  have falsy: "data_client (profile_response (env_of (profile_ok\<lparr>data_client := None\<rparr>))) = None
             \<or> data_client (profile_response (env_of (profile_ok\<lparr>data_client := None\<rparr>))) = Some ''''"
    by (simp add: env_of_def)
  have start: "vault_key world0 = None" "notifications world0 = []"
    by (simp_all add: world0_def)
  note run = login_not_entitled_is_logout
               [OF ok falsy, of "''ada''" "''pw''" world0, unfolded start append_Nil]
  from run show ?thesis by blast
qed

section \<open>The notification of a failed login\<close>

text \<open>A failed login whose response has no error body is answered with the generic
  message.\<close>

lemma login_failure_without_error_body:
  assumes "res_status (profile_response e) \<in> set (NOTOK_STATUS e)"
    and "data_error (profile_response e) = None"
  shows "notifications (snd (login e username password w)) =
           notifications w @
           [\<lparr>n_icon = ''warning'',
             n_message = Some (Tr ''Failed to login. Please check your credentials.'' []),
             n_type = ''warning'', n_timeout = None\<rparr>]"
  by (simp add: login_notok [OF assms(1)] login_failure_def assms(2) Let_def collaborator_defs)

text \<open>
  C6. The claim asks for the generic invalid-credentials message on every failed login
  that is not rate-limited. The source misses a case: for a not-OK response whose error
  body carries a message without the rate-limit marker, \<^verbatim>\<open>message\<close> is never assigned,
  and the notification goes out with \<^verbatim>\<open>message: undefined\<close>. Evaluated here for the
  status 401 and the error message \<^verbatim>\<open>Invalid credentials.\<close>
\<close>

theorem login_failure_other_error_has_no_message:
  "notifications
     (snd (login (env_of (profile_ok\<lparr>res_status := 401,
                             data_error := Some \<lparr>error_message = ''Invalid credentials.''\<rparr>\<rparr>))
             ''ada'' ''wrong'' world0)) =
     [\<lparr>n_icon = ''warning'', n_message = None, n_type = ''warning'', n_timeout = None\<rparr>]"
  by (simp add: login_def login_failure_def env_of_def world0_def Let_def collaborator_defs)

text \<open>
  C7. For every failed login whose error message contains the marker
  \<^verbatim>\<open>Too many failed login attempts\<close>, the \<^verbatim>\<open>date\<close> parameter of the notification is
  the 8-character substring of the error message that ends just before its final
  character: it has length 8, the message is the characters before it, then it, then
  the final character, and its character \<open>i\<close> is the message's character
  \<open>length - 9 + i\<close>.
\<close>

theorem login_rate_limit_timestamp:
  assumes "res_status (profile_response e) \<in> set (NOTOK_STATUS e)"
    and "data_error (profile_response e) = Some err"
    and "includes_str (error_message err) ''Too many failed login attempts''"
  shows "notifications (snd (login e username password w)) =
           notifications w @
           [\<lparr>n_icon = ''warning'',
             n_message = Some (Tr ''Too many failed login attempts; try again at {date}''
                                 [(''date'', take 8 (drop (length (error_message err) - 9)
                                                      (error_message err)))]),
             n_type = ''warning'', n_timeout = None\<rparr>]
         \<and> length (take 8 (drop (length (error_message err) - 9) (error_message err))) = 8
         \<and> error_message err =
             take (length (error_message err) - 9) (error_message err)
             @ take 8 (drop (length (error_message err) - 9) (error_message err))
             @ [last (error_message err)]
         \<and> (\<forall>i<8. take 8 (drop (length (error_message err) - 9) (error_message err)) ! i =
                   error_message err ! (length (error_message err) - 9 + i))"
proof -
  let ?m = "error_message err"
  from includes_str_length [OF assms(3)] have len: "30 \<le> length ?m" by simp
  then have nine: "9 \<le> length ?m" by simp
  have msg: "notifications (snd (login e username password w)) =
           notifications w @
           [\<lparr>n_icon = ''warning'',
             n_message = Some (Tr ''Too many failed login attempts; try again at {date}''
                                 [(''date'', take 8 (drop (length ?m - 9) ?m))]),
             n_type = ''warning'', n_timeout = None\<rparr>]"
    by (simp add: login_notok [OF assms(1)] login_failure_def assms(2,3)
        substring_window [OF nine] Let_def collaborator_defs)
  have l8: "length (take 8 (drop (length ?m - 9) ?m)) = 8"
    using nine by simp
  have ne: "?m \<noteq> []" using nine by auto
  have "drop (length ?m - 9) ?m =
          take 8 (drop (length ?m - 9) ?m) @ drop 8 (drop (length ?m - 9) ?m)"
    by (rule append_take_drop_id [symmetric])
  moreover have "drop 8 (drop (length ?m - 9) ?m) = drop (length ?m - 1) ?m"
    using nine by (simp add: add.commute)
  moreover have "drop (length ?m - 1) ?m = [last ?m]"
    using ne by (metis append_butlast_last_id append_eq_conv_conj length_butlast)
  ultimately have "drop (length ?m - 9) ?m = take 8 (drop (length ?m - 9) ?m) @ [last ?m]"
    by simp
  then have split: "?m = take (length ?m - 9) ?m @ take 8 (drop (length ?m - 9) ?m) @ [last ?m]"
    by (metis append_take_drop_id)
  have idx: "\<forall>i<8. take 8 (drop (length ?m - 9) ?m) ! i = ?m ! (length ?m - 9 + i)"
    using nine by simp
  from msg l8 split idx show ?thesis by blast
qed

theorem login_rate_limit_timestamp_witness:
  "includes_str ''Too many failed login attempts; try again at 13:45:00Z''
     ''Too many failed login attempts'' \<and>
   notifications
     (snd (login
             (env_of (profile_ok\<lparr>res_status := 403, data_error :=
                Some \<lparr>error_message = ''Too many failed login attempts; try again at 13:45:00Z''\<rparr>\<rparr>))
             ''ada'' ''wrong'' world0)) =
     [\<lparr>n_icon = ''warning'',
       n_message = Some (Tr ''Too many failed login attempts; try again at {date}''
                           [(''date'', ''13:45:00'')]),
       n_type = ''warning'', n_timeout = None\<rparr>]"
proof -
  let ?e = "env_of (profile_ok\<lparr>res_status := 403, data_error :=
              Some \<lparr>error_message = ''Too many failed login attempts; try again at 13:45:00Z''\<rparr>\<rparr>)"
  have notok: "res_status (profile_response ?e) \<in> set (NOTOK_STATUS ?e)"
    by (simp add: env_of_def)
  have body: "data_error (profile_response ?e) =
                Some \<lparr>error_message = ''Too many failed login attempts; try again at 13:45:00Z''\<rparr>"
    by (simp add: env_of_def)
  have marker: "includes_str
      (error_message \<lparr>error_message = ''Too many failed login attempts; try again at 13:45:00Z''\<rparr>)
      ''Too many failed login attempts''"
    by simp
  have start: "notifications world0 = []" by (simp add: world0_def)
  from login_rate_limit_timestamp [OF notok body marker, of "''ada''" "''wrong''" world0] marker
  show ?thesis by (simp add: start)
qed

section \<open>The stored client id\<close>

text \<open>
  C8, as the source has it. On every successful entitled login the stored \<^verbatim>\<open>client_id\<close>
  is the raw client identifier with every character removed that is neither a decimal
  digit nor a dot: the character class of the replacement is \<^verbatim>\<open>[^\d.]\<close>, so dots stay.
  Every character of the result is a digit or a dot; for an identifier without a dot
  the result is the identifier's digits, and every character of it is a digit.
\<close>

theorem login_client_id:
  assumes "res_status (profile_response e) \<notin> set (NOTOK_STATUS e)"
    and "data_client (profile_response e) = Some client"
    and "client \<noteq> ''''"
    and "login e username password w = (None, w')"
  shows "user_client_id (state w') = Some (filter (\<lambda>c. digit c \<or> c = CHR ''.'') client)
         \<and> list_all (\<lambda>c. digit c \<or> c = CHR ''.'') (filter (\<lambda>c. digit c \<or> c = CHR ''.'') client)
         \<and> (CHR ''.'' \<notin> set client \<longrightarrow>
              user_client_id (state w') = Some (filter digit client) \<and>
              list_all digit (filter digit client))"
proof -
  from assms(4) have ent: "login_entitled e username password (profile_response e) client
       (join '' '' (filter (\<lambda>i. i \<noteq> '''')
          [data_first_name (profile_response e), data_preposition (profile_response e),
           data_last_name (profile_response e)]))
       (client_get ''api/permission/systemuser/profile/''
          (setupClient (Some username) (Some password) w)) = (None, w')"
    by (simp only: login_ok [OF assms(1-3)])
  note stored = login_entitled_client_id [OF ent]
  have kept: "list_all (\<lambda>c. digit c \<or> c = CHR ''.'') (filter (\<lambda>c. digit c \<or> c = CHR ''.'') client)"
    by (simp add: list_all_iff)
  have nodot: "filter (\<lambda>c. digit c \<or> c = CHR ''.'') client = filter digit client"
    if "CHR ''.'' \<notin> set client"
    using that by (intro filter_cong) auto
  have digits: "list_all digit (filter digit client)"
    by (simp add: list_all_iff)
  from stored kept nodot digits show ?thesis by simp
qed

theorem login_client_id_witness:
  "login (env_of profile_ok) ''ada'' ''pw'' world0 =
     (None, snd (login (env_of profile_ok) ''ada'' ''pw'' world0)) \<and>
   user_client_id (state (snd (login (env_of profile_ok) ''ada'' ''pw'' world0))) = Some ''42''"
proof -
  have ok: "res_status (profile_response (env_of profile_ok)) \<notin> set (NOTOK_STATUS (env_of profile_ok))"
    by (simp add: env_of_def profile_ok_def)
  have client: "data_client (profile_response (env_of profile_ok)) = Some ''/api/apprelation/client/42/''"
    by (simp add: env_of_def profile_ok_def)
  have nonempty: "''/api/apprelation/client/42/'' \<noteq> ''''" by simp
  have "fst (login (env_of profile_ok) ''ada'' ''pw'' world0) = None"
    by (simp add: login_def login_entitled_def loadIdentity_def env_of_def profile_ok_def
        world0_def collaborator_defs Let_def)
  then have resolved: "login (env_of profile_ok) ''ada'' ''pw'' world0 =
     (None, snd (login (env_of profile_ok) ''ada'' ''pw'' world0))"
    by (simp add: prod_eq_iff)
  from login_client_id [OF ok client nonempty resolved] resolved
  show ?thesis
    by (simp add: digit_def)
qed

text \<open>C8 as stated fails: a dot of the raw identifier is retained, so the stored client
  id can hold a character that is not a digit.\<close>

theorem login_client_id_keeps_dots:
  "user_client_id
     (state (snd (login (env_of (profile_ok\<lparr>data_client := Some ''/api/v1.0/client/42/''\<rparr>))
                    ''ada'' ''pw'' world0))) = Some ''1.042''
   \<and> \<not> list_all digit ''1.042''"
  by (simp add: login_def login_entitled_def loadIdentity_def env_of_def profile_ok_def
      world0_def state0_def digit_def Let_def collaborator_defs)

section \<open>The global failMessage\<close>

text \<open>
  C10. A login writes the raw failure message to the global \<^verbatim>\<open>window.failMessage\<close>
  exactly on its rate-limit path (a not-OK status and an error message containing
  \<^verbatim>\<open>Too many failed login attempts\<close>); on every other path of \<^verbatim>\<open>login\<close>, and in
  \<^verbatim>\<open>logout\<close>, the global keeps the value it had. The global is no part of the state
  tree.
\<close>

theorem login_failMessage_global:
  "window_failMessage (snd (login e username password w)) =
     (if rate_limited e
      then map_option error_message (data_error (profile_response e))
      else window_failMessage w)
   \<and> window_failMessage (logout w) = window_failMessage w"
proof -
  have out: "window_failMessage (logout v) = window_failMessage v" for v
    by (simp add: logout_def Let_def collaborator_defs)
  have "window_failMessage (snd (login e username password w)) =
     (if rate_limited e
      then map_option error_message (data_error (profile_response e))
      else window_failMessage w)"
    by (simp add: login_def login_failure_def login_entitled_def rate_limited_def out
        unlockVault_def loadIdentity_def Let_def collaborator_defs
        split: option.splits sum.splits prod.splits)
  with out show ?thesis by simp
qed

theorem login_failMessage_global_witness:
  "rate_limited
     (env_of (profile_ok\<lparr>res_status := 403, data_error :=
        Some \<lparr>error_message = ''Too many failed login attempts; try again at 13:45:00Z''\<rparr>\<rparr>))
   \<and> window_failMessage
       (snd (login
               (env_of (profile_ok\<lparr>res_status := 403, data_error :=
                  Some \<lparr>error_message = ''Too many failed login attempts; try again at 13:45:00Z''\<rparr>\<rparr>))
               ''ada'' ''wrong'' world0)) =
       Some ''Too many failed login attempts; try again at 13:45:00Z''
   \<and> \<not> rate_limited (env_of profile_ok)
   \<and> window_failMessage (snd (login (env_of profile_ok) ''ada'' ''pw'' world0)) = None"
proof -
  let ?e = "env_of (profile_ok\<lparr>res_status := 403, data_error :=
              Some \<lparr>error_message = ''Too many failed login attempts; try again at 13:45:00Z''\<rparr>\<rparr>)"
  have limited: "rate_limited ?e"
    by (simp add: rate_limited_def env_of_def)
  have free: "\<not> rate_limited (env_of profile_ok)"
    by (simp add: rate_limited_def env_of_def profile_ok_def)
  have start: "window_failMessage world0 = None" by (simp add: world0_def)
  from login_failMessage_global [of ?e "''ada''" "''wrong''" world0]
       login_failMessage_global [of "env_of profile_ok" "''ada''" "''pw''" world0]
       limited free start
  show ?thesis by (simp add: env_of_def)
qed

end
